theory Spec2Isabelle
  imports Complex_Main "HOL-Library.Word"
begin

section \<open>Values shared by the handlers\<close>

text \<open>
  The Go handlers of package \<open>handlers\<close> talk to three collaborators: the SQL store
  (through \<open>database/sql\<close> and the \<open>lib/pq\<close> driver), the token service and the Go
  standard library. Every call to a collaborator can fail, and the handlers branch on
  the kind of failure. An \<open>error\<close> value keeps what those branches inspect: whether
  \<open>errors.Is\<close> recognises it as \<open>sql.ErrNoRows\<close>, \<open>sql.ErrTxDone\<close> or one of the
  token errors, whether it is a \<open>*pq.Error\<close> and with which SQLSTATE code, and the
  text that \<open>err.Error()\<close> prints.
\<close>

datatype error =
    ErrNoRows
  | ErrTxDone
  | PqError string string
  | ErrMissingToken
  | ErrSignatureInvalid string
  | ErrTokenExpired string
  | ErrorString string

fun Error :: "error \<Rightarrow> string" where
  "Error ErrNoRows = ''sql: no rows in result set''"
| "Error ErrTxDone = ''sql: transaction has already been committed or rolled back''"
| "Error (PqError code msg) = ''pq: '' @ msg"
| "Error ErrMissingToken = ''authorization token is required''"
| "Error (ErrSignatureInvalid msg) = msg"
| "Error (ErrTokenExpired msg) = msg"
| "Error (ErrorString msg) = msg"

text \<open>
  A Go \<open>float64\<close>: the finite values are kept as the real numbers they denote, the
  three special values are kept apart. Arithmetic on finite values is exact here; the
  rounding of IEEE 754 is not part of the model.
\<close>

datatype float64 = Finite real | PosInf | NegInf | NaN

fun f64_neg :: "float64 \<Rightarrow> float64" where
  "f64_neg (Finite x) = Finite (- x)"
| "f64_neg PosInf = NegInf"
| "f64_neg NegInf = PosInf"
| "f64_neg NaN = NaN"

fun f64_add :: "float64 \<Rightarrow> float64 \<Rightarrow> float64" where
  "f64_add NaN b = NaN"
| "f64_add a NaN = NaN"
| "f64_add (Finite x) (Finite y) = Finite (x + y)"
| "f64_add (Finite x) b = b"
| "f64_add a (Finite y) = a"
| "f64_add PosInf PosInf = PosInf"
| "f64_add NegInf NegInf = NegInf"
| "f64_add PosInf NegInf = NaN"
| "f64_add NegInf PosInf = NaN"

definition f64_sub :: "float64 \<Rightarrow> float64 \<Rightarrow> float64" where
  "f64_sub a b = f64_add a (f64_neg b)"

fun f64_lt :: "float64 \<Rightarrow> float64 \<Rightarrow> bool" where
  "f64_lt NaN b = False"
| "f64_lt a NaN = False"
| "f64_lt (Finite x) (Finite y) = (x < y)"
| "f64_lt NegInf NegInf = False"
| "f64_lt NegInf b = True"
| "f64_lt a NegInf = False"
| "f64_lt PosInf b = False"
| "f64_lt a PosInf = True"

fun f64_le :: "float64 \<Rightarrow> float64 \<Rightarrow> bool" where
  "f64_le NaN b = False"
| "f64_le a NaN = False"
| "f64_le a b = (a = b \<or> f64_lt a b)"

text \<open>\<open>math.IsNaN\<close>, \<open>math.IsInf(x, 0)\<close>, \<open>math.Abs\<close> and \<open>math.Round\<close> (halves away
  from zero).\<close>

definition IsNaN :: "float64 \<Rightarrow> bool" where
  "IsNaN x = (x = NaN)"

definition IsInf :: "float64 \<Rightarrow> bool" where
  "IsInf x = (x = PosInf \<or> x = NegInf)"

fun Abs :: "float64 \<Rightarrow> float64" where
  "Abs (Finite x) = Finite \<bar>x\<bar>"
| "Abs PosInf = PosInf"
| "Abs NegInf = PosInf"
| "Abs NaN = NaN"

definition round_half_away :: "real \<Rightarrow> int" where
  "round_half_away x = (if 0 \<le> x then \<lfloor>x + 1 / 2\<rfloor> else \<lceil>x - 1 / 2\<rceil>)"

fun Round :: "float64 \<Rightarrow> float64" where
  "Round (Finite x) = Finite (of_int (round_half_away x))"
| "Round PosInf = PosInf"
| "Round NegInf = NegInf"
| "Round NaN = NaN"

text \<open>
  The conversion \<open>int64(x)\<close> of a float. Go leaves the result to the implementation
  when the value does not fit; on amd64 it is the least \<open>int64\<close>, which is what is
  written here. The argument is always a rounded value in the handlers.
\<close>

fun int64_of_float64 :: "float64 \<Rightarrow> int" where
  "int64_of_float64 (Finite x) =
     (let t = (if 0 \<le> x then \<lfloor>x\<rfloor> else \<lceil>x\<rceil>)
      in if - (2 ^ 63) \<le> t \<and> t < 2 ^ 63 then t else - (2 ^ 63))"
| "int64_of_float64 PosInf = - (2 ^ 63)"
| "int64_of_float64 NegInf = - (2 ^ 63)"
| "int64_of_float64 NaN = - (2 ^ 63)"

subsection \<open>Strings\<close>

text \<open>
  A Go string is a byte sequence, here a \<open>string\<close>. \<open>strings.TrimSpace\<close> removes
  leading and trailing white space; the model knows the six ASCII white-space bytes
  (the further Unicode spaces, which take several bytes in UTF-8, are left in place).
  \<open>strings.EqualFold\<close> compares under case folding; the model folds the ASCII letters,
  which is exact for the two words the handlers compare with.
\<close>

definition isSpace :: "char \<Rightarrow> bool" where
  "isSpace c = (c \<in> set [CHR 0x09, CHR 0x0A, CHR 0x0B, CHR 0x0C, CHR 0x0D, CHR 0x20])"

definition TrimSpace :: "string \<Rightarrow> string" where
  "TrimSpace s = rev (dropWhile isSpace (rev (dropWhile isSpace s)))"

definition toLower :: "char \<Rightarrow> char" where
  "toLower c = (let n = (of_char c :: nat) in if 65 \<le> n \<and> n \<le> 90 then char_of (n + 32) else c)"

definition EqualFold :: "string \<Rightarrow> string \<Rightarrow> bool" where
  "EqualFold s t = (map toLower s = map toLower t)"

subsection \<open>Instants\<close>

text \<open>Instants are nanoseconds since the Unix epoch; \<open>Before\<close> and \<open>After\<close> of
  \<open>time.Time\<close> are \<open><\<close> and \<open>>\<close>.\<close>

type_synonym time = int

subsection \<open>HTTP responses\<close>

text \<open>An entry of the listing (\<open>promocodeActivationResponse\<close>).\<close>

record promocodeActivationResponse =
  act_PromocodeID :: int
  act_Keyword :: string
  act_Quantity :: float64
  act_ActivatedAt :: "time option"
  act_StartTime :: "time option"
  act_EndTime :: "time option"

text \<open>A response is a status and a JSON object (\<open>fiber.Map\<close>), kept as the list of its
  fields; a field holds one of the Go values the handlers put there.\<close>

datatype json =
    JStr string
  | JNum float64
  | JInt int
  | JBool bool
  | JActivations "promocodeActivationResponse list"

record response =
  Status :: nat
  Body :: "(string \<times> json) list"

definition JSON :: "nat \<Rightarrow> (string \<times> json) list \<Rightarrow> response" where
  "JSON st kvs = \<lparr>Status = st, Body = kvs\<rparr>"

definition body_field :: "response \<Rightarrow> string \<Rightarrow> json option" where
  "body_field r k = map_of (Body r) k"

section \<open>Promotional codes\<close>

record promocodeRecord =
  ID :: int
  Name :: string
  Quantity :: float64
  IsActive :: bool
  StartTime :: "time option"
  EndTime :: "time option"

text \<open>\<open>computePromocodeActive\<close> takes a pointer (\<open>None\<close> is \<open>nil\<close>) and reads the clock,
  which is the first argument here.\<close>

definition computePromocodeActive :: "time \<Rightarrow> promocodeRecord option \<Rightarrow> bool" where
  "computePromocodeActive now rcd =
     (case rcd of
        None \<Rightarrow> False
      | Some record \<Rightarrow>
          if StartTime record \<noteq> None \<and> now < the (StartTime record) then False
          else if EndTime record \<noteq> None \<and> now > the (EndTime record) then False
          else True)"

text \<open>
  A column scanned into an \<open>interface{}\<close> arrives as one of the driver's dynamic types.
  \<open>normalizeQuantity\<close> turns it into a \<open>float64\<close>; for text it calls
  \<open>strconv.ParseFloat\<close>, the parameter \<open>pf\<close>.
\<close>

datatype dbvalue =
    VNil
  | VFloat64 float64
  | VInt64 int
  | VInt32 int
  | VUint64 nat
  | VBytes string
  | VString string
  | VOther string

fun normalizeQuantity :: "(string \<Rightarrow> error + float64) \<Rightarrow> dbvalue \<Rightarrow> error + float64" where
  "normalizeQuantity pf VNil = Inl (ErrorString ''quantity value is nil'')"
| "normalizeQuantity pf (VFloat64 v) = Inr v"
| "normalizeQuantity pf (VInt64 v) = Inr (Finite (of_int v))"
| "normalizeQuantity pf (VInt32 v) = Inr (Finite (of_int v))"
| "normalizeQuantity pf (VUint64 v) = Inr (Finite (of_nat v))"
| "normalizeQuantity pf (VBytes v) = (case pf v of Inl err \<Rightarrow> Inl err | Inr parsed \<Rightarrow> Inr parsed)"
| "normalizeQuantity pf (VString v) = (case pf v of Inl err \<Rightarrow> Inl err | Inr parsed \<Rightarrow> Inr parsed)"
| "normalizeQuantity pf (VOther ty) = Inl (ErrorString (''unsupported quantity type '' @ ty))"

text \<open>
  \<open>findPromocodeByKeyword\<close> runs up to three queries. Their outcomes are the arguments
  \<open>q1\<close> (table \<open>promocode\<close>: id, name, quantity, start_time, end_time), \<open>q2\<close> (table
  \<open>promocodes\<close>: promocode_id, quantity, is_active) and \<open>q3\<close> (table \<open>promocodes\<close> with
  the columns id, quantity, active): the scanned row, or the error of \<open>QueryRow(...).Scan\<close>.
\<close>

type_synonym promocode_row = "int \<times> string \<times> dbvalue \<times> time option \<times> time option"
type_synonym promocodes_row = "int \<times> float64 \<times> bool"

definition is_pq :: "error \<Rightarrow> string list \<Rightarrow> bool" where
  "is_pq err codes = (case err of PqError code msg \<Rightarrow> code \<in> set codes | _ \<Rightarrow> False)"

definition legacy_record :: "promocodes_row \<Rightarrow> promocodeRecord" where
  "legacy_record row =
     (case row of (i, q, a) \<Rightarrow>
        \<lparr>ID = i, Name = [], Quantity = q, IsActive = a, StartTime = None, EndTime = None\<rparr>)"

definition findPromocodeByKeyword ::
  "time \<Rightarrow> (string \<Rightarrow> error + float64) \<Rightarrow> error + promocode_row \<Rightarrow>
   error + promocodes_row \<Rightarrow> error + promocodes_row \<Rightarrow> error + promocodeRecord" where
  "findPromocodeByKeyword now pf q1 q2 q3 =
     (let legacy =
        (case q2 of
           Inr row \<Rightarrow> Inr (legacy_record row)
         | Inl err \<Rightarrow>
             if is_pq err [''42703''] then
               (case q3 of Inl err3 \<Rightarrow> Inl err3 | Inr row \<Rightarrow> Inr (legacy_record row))
             else if is_pq err [''42P01''] then Inl (ErrorString ''promocodes table not found'')
             else Inl err)
      in case q1 of
           Inr (i, n, quantity, start, end) \<Rightarrow>
             (case normalizeQuantity pf quantity of
                Inl convErr \<Rightarrow> Inl convErr
              | Inr q \<Rightarrow>
                  (let record = \<lparr>ID = i, Name = n, Quantity = q, IsActive = False,
                                  StartTime = start, EndTime = end\<rparr>
                   in Inr (record\<lparr>IsActive := computePromocodeActive now (Some record)\<rparr>)))
         | Inl err \<Rightarrow>
             if err = ErrNoRows then legacy
             else if is_pq err [''42P01'', ''42703''] then legacy
             else Inl err)"

section \<open>The store and its transactions\<close>

text \<open>
  The tables the redemption path writes: \<open>balance\<close> (one quantity per user),
  \<open>promocode_activation\<close> (promocode_id, user_id, enable_time, quantity) and the older
  \<open>promocode_activations\<close> (promocode_id, user_id, activated_at). The database is the
  committed tables and, while a transaction is open, the working copy that the
  transaction reads and writes. One session is modelled: nothing else commits between
  two statements of a handler.
\<close>

record tables =
  balance :: "int \<rightharpoonup> float64"
  promocode_activation :: "(int \<times> int \<times> time \<times> int) list"
  promocode_activations :: "(int \<times> int \<times> time) list"

record database =
  committed :: tables
  pending :: "tables option"

text \<open>
  Every call site of the store has a fault input: \<open>Some err\<close> makes the call fail with
  \<open>err\<close> and without effect (a lost connection, a missing table or column, a constraint
  that another session made fire); \<open>None\<close> lets the statement run on the tables.
\<close>

definition db_Begin :: "error option \<Rightarrow> database \<Rightarrow> error option \<times> database" where
  "db_Begin fault s =
     (case fault of
        Some err \<Rightarrow> (Some err, s)
      | None \<Rightarrow> (None, s\<lparr>pending := Some (committed s)\<rparr>))"

definition db_QueryRow :: "error option \<Rightarrow> (tables \<Rightarrow> error + 'a) \<Rightarrow> database \<Rightarrow> error + 'a" where
  "db_QueryRow fault query s =
     (case fault of Some err \<Rightarrow> Inl err | None \<Rightarrow> query (committed s))"

definition tx_QueryRow :: "error option \<Rightarrow> (tables \<Rightarrow> error + 'a) \<Rightarrow> database \<Rightarrow> error + 'a" where
  "tx_QueryRow fault query s =
     (case pending s of
        None \<Rightarrow> Inl ErrTxDone
      | Some t \<Rightarrow> (case fault of Some err \<Rightarrow> Inl err | None \<Rightarrow> query t))"

definition tx_Exec ::
  "error option \<Rightarrow> (tables \<Rightarrow> error + tables) \<Rightarrow> database \<Rightarrow> error option \<times> database" where
  "tx_Exec fault stmt s =
     (case pending s of
        None \<Rightarrow> (Some ErrTxDone, s)
      | Some t \<Rightarrow>
          (case fault of
             Some err \<Rightarrow> (Some err, s)
           | None \<Rightarrow>
               (case stmt t of
                  Inl err \<Rightarrow> (Some err, s)
                | Inr t' \<Rightarrow> (None, s\<lparr>pending := Some t'\<rparr>))))"

text \<open>\<open>Commit\<close> publishes the working copy and ends the transaction; a failed commit
  ends it too and publishes nothing. \<open>Rollback\<close> drops the working copy; on a
  transaction that has ended it returns \<open>sql.ErrTxDone\<close> and changes nothing.\<close>

definition tx_Commit :: "error option \<Rightarrow> database \<Rightarrow> error option \<times> database" where
  "tx_Commit fault s =
     (case pending s of
        None \<Rightarrow> (Some ErrTxDone, s)
      | Some t \<Rightarrow>
          (case fault of
             Some err \<Rightarrow> (Some err, s\<lparr>pending := None\<rparr>)
           | None \<Rightarrow> (None, \<lparr>committed = t, pending = None\<rparr>)))"

definition tx_Rollback :: "database \<Rightarrow> error option \<times> database" where
  "tx_Rollback s =
     (case pending s of
        None \<Rightarrow> (Some ErrTxDone, s)
      | Some t \<Rightarrow> (None, s\<lparr>pending := None\<rparr>))"

subsection \<open>The statements of the redemption path\<close>

text \<open>\<open>SELECT 1 FROM promocode_activation WHERE promocode_id = $1 AND user_id = $2\<close> and
  the same on \<open>promocode_activations\<close>.\<close>

definition select_activation :: "int \<Rightarrow> int \<Rightarrow> tables \<Rightarrow> error + int" where
  "select_activation pid uid t =
     (if (pid, uid) \<in> set (map (\<lambda>(p, u, e, q). (p, u)) (promocode_activation t))
      then Inr 1 else Inl ErrNoRows)"

definition select_activations :: "int \<Rightarrow> int \<Rightarrow> tables \<Rightarrow> error + int" where
  "select_activations pid uid t =
     (if (pid, uid) \<in> set (map (\<lambda>(p, u, a). (p, u)) (promocode_activations t))
      then Inr 1 else Inl ErrNoRows)"

text \<open>\<open>INSERT INTO balance (user_id, quantity) VALUES ($1, 0) ON CONFLICT (user_id) DO
  NOTHING\<close>.\<close>

definition insert_balance_do_nothing :: "int \<Rightarrow> tables \<Rightarrow> error + tables" where
  "insert_balance_do_nothing uid t =
     (case balance t uid of
        None \<Rightarrow> Inr (t\<lparr>balance := (balance t)(uid \<mapsto> Finite 0)\<rparr>)
      | Some q \<Rightarrow> Inr t)"

text \<open>\<open>UPDATE balance SET quantity = quantity + $1 WHERE user_id = $2\<close>.\<close>

definition update_balance_add :: "float64 \<Rightarrow> int \<Rightarrow> tables \<Rightarrow> error + tables" where
  "update_balance_add q uid t =
     (case balance t uid of
        None \<Rightarrow> Inr t
      | Some b \<Rightarrow> Inr (t\<lparr>balance := (balance t)(uid \<mapsto> f64_add b q)\<rparr>))"

text \<open>\<open>SELECT quantity FROM balance WHERE user_id = $1\<close>.\<close>

definition select_balance :: "int \<Rightarrow> tables \<Rightarrow> error + float64" where
  "select_balance uid t = (case balance t uid of None \<Rightarrow> Inl ErrNoRows | Some q \<Rightarrow> Inr q)"

text \<open>
  Modelled from the spec: the table definitions are not among the source files; the
  spec gives the activation tables a uniqueness constraint on (code, user), and names
  the SQLSTATE 23505 for its violation. The two inserts below refuse a second row for
  a pair with that code and append the row otherwise.
\<close>

definition unique_violation :: error where
  "unique_violation = PqError ''23505'' ''duplicate key value violates unique constraint''"

definition insert_activation :: "int \<Rightarrow> int \<Rightarrow> time \<Rightarrow> int \<Rightarrow> tables \<Rightarrow> error + tables" where
  "insert_activation pid uid now q t =
     (if (pid, uid) \<in> set (map (\<lambda>(p, u, e, q). (p, u)) (promocode_activation t))
      then Inl unique_violation
      else Inr (t\<lparr>promocode_activation := promocode_activation t @ [(pid, uid, now, q)]\<rparr>))"

definition insert_activations :: "int \<Rightarrow> int \<Rightarrow> time \<Rightarrow> tables \<Rightarrow> error + tables" where
  "insert_activations pid uid now t =
     (if (pid, uid) \<in> set (map (\<lambda>(p, u, a). (p, u)) (promocode_activations t))
      then Inl unique_violation
      else Inr (t\<lparr>promocode_activations := promocode_activations t @ [(pid, uid, now)]\<rparr>))"

section \<open>The balance ledger\<close>

text \<open>A \<open>*sql.Tx\<close> is \<open>nil\<close> or the handle of the session's transaction.\<close>

datatype sql_Tx = TxNil | Tx

definition ensureBalanceRecord ::
  "error option \<Rightarrow> sql_Tx \<Rightarrow> int \<Rightarrow> database \<Rightarrow> error option \<times> database" where
  "ensureBalanceRecord fault tx userID s =
     (if tx = TxNil
      then (Some (ErrorString ''transaction is required to ensure balance record''), s)
      else tx_Exec fault (insert_balance_do_nothing userID) s)"

section \<open>Authentication failures\<close>

definition unauthorizedResponse :: "error \<Rightarrow> response" where
  "unauthorizedResponse err =
     (let message =
        (case err of
           ErrMissingToken \<Rightarrow> ''Missing authorization token''
         | ErrSignatureInvalid m \<Rightarrow> ''Invalid token signature''
         | ErrTokenExpired m \<Rightarrow> ''Token expired''
         | _ \<Rightarrow> ''Unauthorized'')
      in JSON 401 [(''error'', JStr message), (''details'', JStr (Error err))])"

section \<open>Redeeming a code\<close>

text \<open>
  What \<open>ActivatePromocode\<close> receives from outside: the outcome of
  \<open>getClaimsFromContext\<close> (the user id of the token), of \<open>BodyParser\<close> (the field
  \<open>promocode\<close> of the body), the two readings of the clock, \<open>strconv.ParseFloat\<close>, the
  outcomes of the lookup queries, and a fault input for each call of the store.
\<close>

record activate_env =
  getClaimsFromContext :: "error + int"
  BodyParser :: "error + string"
  now_lookup :: time
  now_insert :: time
  ParseFloat :: "string \<Rightarrow> error + float64"
  lookup_promocode :: "error + promocode_row"
  lookup_promocodes :: "error + promocodes_row"
  lookup_promocodes_alt :: "error + promocodes_row"
  fault_begin :: "error option"
  fault_check :: "error option"
  fault_check_legacy :: "error option"
  fault_ensure :: "error option"
  fault_update :: "error option"
  fault_insert :: "error option"
  fault_insert_legacy :: "error option"
  fault_commit :: "error option"
  fault_readback :: "error option"

definition already_activated :: response where
  "already_activated = JSON 400 [(''error'', JStr ''Promocode already activated by this user'')]"

definition failure :: "string \<Rightarrow> error \<Rightarrow> response" where
  "failure message err = JSON 500 [(''error'', JStr message), (''details'', JStr (Error err))]"

text \<open>The check for an earlier activation: \<open>Some\<close> response when the handler returns
  there, \<open>None\<close> when it goes on.\<close>

definition check_activation :: "activate_env \<Rightarrow> int \<Rightarrow> promocodeRecord \<Rightarrow> database \<Rightarrow> response option" where
  "check_activation env userID record s =
     (case tx_QueryRow (fault_check env) (select_activation (ID record) userID) s of
        Inr existing \<Rightarrow> Some already_activated
      | Inl err \<Rightarrow>
          if err = ErrNoRows then None
          else if is_pq err [''42P01'', ''42703''] then
            (case tx_QueryRow (fault_check_legacy env) (select_activations (ID record) userID) s of
               Inr existing \<Rightarrow> Some already_activated
             | Inl fallbackErr \<Rightarrow>
                 if fallbackErr = ErrNoRows then None
                 else Some (failure ''Failed to check legacy promocode activation'' fallbackErr))
          else Some (failure ''Failed to check promocode activation'' err))"

text \<open>From \<open>tx.Commit()\<close> to the end of the handler.\<close>

definition commit_and_read :: "activate_env \<Rightarrow> int \<Rightarrow> database \<Rightarrow> response \<times> database" where
  "commit_and_read env userID s =
     (case tx_Commit (fault_commit env) s of
        (Some err, s') \<Rightarrow> (failure ''Failed to complete activation'' err, s')
      | (None, s') \<Rightarrow>
          (case db_QueryRow (fault_readback env) (select_balance userID) s' of
             Inl err \<Rightarrow> (failure ''Failed to fetch updated balance'' err, s')
           | Inr newBalance \<Rightarrow>
               (JSON 200 [(''message'', JStr ''Promocode activated successfully''),
                          (''balance'', JNum newBalance)], s')))"

text \<open>The body of the handler after \<open>defer tx.Rollback()\<close>.\<close>

definition activate_in_tx ::
  "activate_env \<Rightarrow> int \<Rightarrow> promocodeRecord \<Rightarrow> database \<Rightarrow> response \<times> database" where
  "activate_in_tx env userID record s =
     (case check_activation env userID record s of
        Some resp \<Rightarrow> (resp, s)
      | None \<Rightarrow>
     (case ensureBalanceRecord (fault_ensure env) Tx userID s of
        (Some err, s1) \<Rightarrow> (failure ''Failed to prepare balance record'' err, s1)
      | (None, s1) \<Rightarrow>
     (case tx_Exec (fault_update env) (update_balance_add (Quantity record) userID) s1 of
        (Some err, s2) \<Rightarrow> (failure ''Failed to update balance'' err, s2)
      | (None, s2) \<Rightarrow>
     (case tx_Exec (fault_insert env)
             (insert_activation (ID record) userID (now_insert env)
                (int64_of_float64 (Round (Quantity record)))) s2 of
        (None, s3) \<Rightarrow> commit_and_read env userID s3
      | (Some err, s3) \<Rightarrow>
          if is_pq err [''42703'', ''42P01''] then
            (case tx_Exec (fault_insert_legacy env)
                    (insert_activations (ID record) userID (now_insert env)) s3 of
               (Some retryErr, s4) \<Rightarrow>
                 (failure ''Failed to record promocode activation'' retryErr, s4)
             | (None, s4) \<Rightarrow> commit_and_read env userID s4)
          else if is_pq err [''23505''] then (already_activated, s3)
          else (failure ''Failed to record promocode activation'' err, s3)))))"

definition ActivatePromocode :: "activate_env \<Rightarrow> database \<Rightarrow> response \<times> database" where
  "ActivatePromocode env s =
     (case getClaimsFromContext env of
        Inl err \<Rightarrow> (unauthorizedResponse err, s)
      | Inr userID \<Rightarrow>
     (case BodyParser env of
        Inl err \<Rightarrow>
          (JSON 400 [(''error'', JStr ''Invalid request payload''),
                     (''details'', JStr (Error err))], s)
      | Inr promocode \<Rightarrow>
     (let keyword = TrimSpace promocode in
      if keyword = [] then (JSON 400 [(''error'', JStr ''Promocode keyword is required'')], s)
      else
     (case findPromocodeByKeyword (now_lookup env) (ParseFloat env) (lookup_promocode env)
             (lookup_promocodes env) (lookup_promocodes_alt env) of
        Inl err \<Rightarrow>
          if err = ErrNoRows then (JSON 404 [(''error'', JStr ''Promocode not found'')], s)
          else (failure ''Failed to fetch promocode'' err, s)
      | Inr record \<Rightarrow>
          if \<not> IsActive record then (JSON 400 [(''error'', JStr ''Promocode is not active'')], s)
          else
            (case db_Begin (fault_begin env) s of
               (Some err, s0) \<Rightarrow> (failure ''Failed to start transaction'' err, s0)
             | (None, s0) \<Rightarrow>
                 (case activate_in_tx env userID record s0 of
                    (resp, s') \<Rightarrow> (resp, snd (tx_Rollback s'))))))))"

section \<open>Creating a code\<close>

text \<open>The request body of \<open>AddPromocode\<close>; \<open>quantity\<close> is kept as the raw JSON text
  (\<open>json.RawMessage\<close>), the optional fields are pointers.\<close>

record addPromocodeRequest =
  req_Name :: string
  req_Keyword :: string
  req_Quantity :: string
  req_IsActive :: "bool option"
  req_StartTime :: "string option"
  req_EndTime :: "string option"
  req_Metadata :: "string option"

text \<open>\<open>parseFlexibleQuantity\<close>, with \<open>strconv.Unquote\<close> and \<open>strconv.ParseFloat\<close> as
  the parameters \<open>uq\<close> and \<open>pf\<close>. \<open>fmt.Errorf\<close> with \<open>%w\<close> keeps the text of the
  wrapped error.\<close>

definition parseFlexibleQuantity ::
  "(string \<Rightarrow> error + string) \<Rightarrow> (string \<Rightarrow> error + float64) \<Rightarrow> string \<Rightarrow> error + float64" where
  "parseFlexibleQuantity uq pf raw =
     (if length raw = 0 then Inl (ErrorString ''quantity is required'')
      else
        (let trimmed = TrimSpace raw in
         if trimmed = [] \<or> EqualFold trimmed ''null'' then Inl (ErrorString ''quantity is required'')
         else
           (case (if hd trimmed = CHR 0x22 then
                    (case uq trimmed of
                       Inl err \<Rightarrow> Inl (ErrorString (''invalid quantity: '' @ Error err))
                     | Inr unquoted \<Rightarrow>
                         if TrimSpace unquoted = [] then Inl (ErrorString ''quantity is required'')
                         else Inr (TrimSpace unquoted))
                  else Inr trimmed) of
              Inl err \<Rightarrow> Inl err
            | Inr trimmed' \<Rightarrow>
                (case pf trimmed' of
                   Inl err \<Rightarrow> Inl (ErrorString (''invalid quantity: '' @ Error err))
                 | Inr v \<Rightarrow> Inr v))))"

text \<open>The constant \<open>1e-9\<close> as a \<open>float64\<close>: the double nearest to one billionth.\<close>

definition float64_1e_9 :: real where
  "float64_1e_9 = 4835703278458517 / 2 ^ 82"

text \<open>The checks of \<open>AddPromocode\<close> on the parsed quantity, in the handler's order: the
  response of the check that refuses it, or the integer \<open>quantityInt\<close>.\<close>

definition check_quantity :: "float64 \<Rightarrow> response + int" where
  "check_quantity quantityValue =
     (if f64_le quantityValue (Finite 0)
      then Inl (JSON 400 [(''error'', JStr ''Quantity must be greater than zero'')])
      else if IsNaN quantityValue \<or> IsInf quantityValue
      then Inl (JSON 400 [(''error'', JStr ''Quantity must be a finite number'')])
      else
        (let roundedQuantity = Round quantityValue in
         if f64_lt (Finite float64_1e_9) (Abs (f64_sub quantityValue roundedQuantity))
         then Inl (JSON 400 [(''error'', JStr ''Quantity must be an integer value'')])
         else Inr (int64_of_float64 roundedQuantity)))"

text \<open>\<open>parseTimeInput\<close> tries the layouts in order; \<open>time.Parse\<close> is the parameter
  \<open>tp\<close>, taking the layout and the text.\<close>

definition layouts :: "string list" where
  "layouts = [''2006-01-02T15:04:05Z07:00'', ''2006-01-02T15:04:05'', ''2006-01-02T15:04'',
              ''2006-01-02 15:04:05'', ''2006-01-02 15:04'', ''2006-01-02'']"

fun try_layouts :: "(string \<Rightarrow> string \<Rightarrow> error + time) \<Rightarrow> string list \<Rightarrow> string \<Rightarrow> time option" where
  "try_layouts tp [] trimmed = None"
| "try_layouts tp (layout # rest) trimmed =
     (case tp layout trimmed of
        Inr parsed \<Rightarrow> Some parsed
      | Inl err \<Rightarrow> try_layouts tp rest trimmed)"

definition parseTimeInput :: "(string \<Rightarrow> string \<Rightarrow> error + time) \<Rightarrow> string \<Rightarrow> error + time" where
  "parseTimeInput tp v =
     (case try_layouts tp layouts (TrimSpace v) of
        Some parsed \<Rightarrow> Inr parsed
      | None \<Rightarrow> Inl (ErrorString (''unsupported time format: '' @ v)))"

definition Hour :: int where
  "Hour = 3600 * 1000000000"

text \<open>\<open>resolvePromocodeTimes\<close> reads the clock (\<open>now\<close>) and returns two pointers, both
  set when there is no error.\<close>

definition resolvePromocodeTimes ::
  "(string \<Rightarrow> string \<Rightarrow> error + time) \<Rightarrow> time \<Rightarrow> string option \<Rightarrow> string option \<Rightarrow>
   error + (time option \<times> time option)" where
  "resolvePromocodeTimes tp now start end =
     (case (if start \<noteq> None \<and> TrimSpace (the start) \<noteq> [] then parseTimeInput tp (the start)
            else Inr now) of
        Inl err \<Rightarrow> Inl err
      | Inr startTime \<Rightarrow>
          (case (if end \<noteq> None \<and> TrimSpace (the end) \<noteq> [] then parseTimeInput tp (the end)
                 else Inr (startTime + 30 * 24 * Hour)) of
             Inl err \<Rightarrow> Inl err
           | Inr endTime \<Rightarrow>
               if \<not> (endTime > startTime) then Inl (ErrorString ''end time must be after start time'')
               else Inr (Some startTime, Some endTime)))"

text \<open>\<open>generatePromocodeKeyword\<close>: \<open>rand.Read\<close> fails (\<open>rand_err\<close>) or fills the buffer,
  byte \<open>i\<close> with \<open>rand_bytes i\<close>; each byte is then replaced by a character of the
  charset.\<close>

definition charset :: string where
  "charset = ''ABCDEFGHIJKLMNOPQRSTUVWXYZ0123456789''"

definition generatePromocodeKeyword :: "error option \<Rightarrow> (nat \<Rightarrow> 8 word) \<Rightarrow> int \<Rightarrow> error + string" where
  "generatePromocodeKeyword rand_err rand_bytes n =
     (if n \<le> 0 then Inl (ErrorString ''length must be positive'')
      else
        (case rand_err of
           Some err \<Rightarrow> Inl err
         | None \<Rightarrow>
             Inr (map (\<lambda>i. charset ! (unat (rand_bytes i) mod length charset)) [0..<nat n])))"

text \<open>
  What \<open>AddPromocode\<close> receives from outside: the outcomes of \<open>getClaimsFromContext\<close>,
  of \<open>isUserAdmin\<close> and of \<open>json.Unmarshal\<close>, the library functions, the random
  source, the two readings of the clock, and the outcome of each of its three inserts
  (\<open>None\<close> when the insert succeeds). The rows it inserts are not followed further.
\<close>

record add_env =
  add_getClaimsFromContext :: "error + int"
  add_isUserAdmin :: "error + bool"
  add_Unmarshal :: "error + addPromocodeRequest"
  add_Unquote :: "string \<Rightarrow> error + string"
  add_ParseFloat :: "string \<Rightarrow> error + float64"
  add_rand_err :: "error option"
  add_rand_bytes :: "nat \<Rightarrow> 8 word"
  add_time_Parse :: "string \<Rightarrow> string \<Rightarrow> error + time"
  add_Format :: "time \<Rightarrow> string"
  now_resolve :: time
  now_active :: time
  exec_insert_promocode :: "error option"
  exec_insert_promocodes :: "error option"
  exec_insert_promocodes_retry :: "error option"

definition keyword_exists :: response where
  "keyword_exists = JSON 409 [(''error'', JStr ''Promocode keyword already exists'')]"

text \<open>The insert into the legacy table \<open>promocodes\<close>, with its retry without the column
  \<open>created_at\<close>.\<close>

definition insert_legacy ::
  "add_env \<Rightarrow> string \<Rightarrow> string \<Rightarrow> int \<Rightarrow> bool \<Rightarrow> time option \<Rightarrow> time option \<Rightarrow> response" where
  "insert_legacy env name keyword quantityInt isActive startTime endTime =
     (let response =
        [(''keyword'', JStr keyword), (''active'', JBool isActive),
         (''quantity'', JInt quantityInt), (''name'', JStr name)] @
        (case startTime of None \<Rightarrow> [] | Some st \<Rightarrow> [(''start_time'', JStr (add_Format env st))]) @
        (case endTime of None \<Rightarrow> [] | Some en \<Rightarrow> [(''end_time'', JStr (add_Format env en))])
      in case exec_insert_promocodes env of
           None \<Rightarrow> JSON 200 response
         | Some err \<Rightarrow>
             if is_pq err [''23505''] then keyword_exists
             else if is_pq err [''42703''] then
               (case exec_insert_promocodes_retry env of
                  Some retryErr \<Rightarrow> failure ''Failed to create promocode'' retryErr
                | None \<Rightarrow> JSON 200 response)
             else failure ''Failed to create promocode'' err)"

text \<open>The insert into \<open>promocode\<close>, which falls back to the legacy insert when the
  table or a column is missing.\<close>

definition insert_promocode ::
  "add_env \<Rightarrow> string \<Rightarrow> string \<Rightarrow> int \<Rightarrow> bool \<Rightarrow> time option \<Rightarrow> time option \<Rightarrow> response" where
  "insert_promocode env name keyword quantityInt isActive startTime endTime =
     (if startTime \<noteq> None \<and> endTime \<noteq> None then
        (case exec_insert_promocode env of
           None \<Rightarrow>
             (let activeNow = computePromocodeActive (now_active env)
                    (Some \<lparr>ID = 0, Name = [], Quantity = Finite 0, IsActive = False,
                           StartTime = startTime, EndTime = endTime\<rparr>)
              in JSON 200
                   [(''keyword'', JStr keyword), (''active'', JBool activeNow),
                    (''quantity'', JInt quantityInt), (''name'', JStr name),
                    (''start_time'', JStr (add_Format env (the startTime))),
                    (''end_time'', JStr (add_Format env (the endTime)))])
         | Some err \<Rightarrow>
             if is_pq err [''23505''] then keyword_exists
             else if is_pq err [''42P01'', ''42703''] then
               insert_legacy env name keyword quantityInt isActive startTime endTime
             else failure ''Failed to create promocode'' err)
      else insert_legacy env name keyword quantityInt isActive startTime endTime)"

text \<open>\<open>AddPromocode\<close> from the keyword on, for a request whose name and quantity passed.\<close>

definition create_promocode :: "add_env \<Rightarrow> addPromocodeRequest \<Rightarrow> string \<Rightarrow> int \<Rightarrow> response" where
  "create_promocode env req name quantityInt =
     (case (let keyword = TrimSpace (req_Keyword req) in
            if keyword = [] \<or> EqualFold keyword ''none''
            then generatePromocodeKeyword (add_rand_err env) (add_rand_bytes env) 8
            else Inr keyword) of
        Inl genErr \<Rightarrow> failure ''Failed to generate promocode keyword'' genErr
      | Inr keyword \<Rightarrow>
          (let isActive = (case req_IsActive req of None \<Rightarrow> True | Some b \<Rightarrow> b) in
           case resolvePromocodeTimes (add_time_Parse env) (now_resolve env)
                  (req_StartTime req) (req_EndTime req) of
             Inl parseErr \<Rightarrow>
               JSON 400 [(''error'', JStr ''Invalid start or end time''),
                         (''details'', JStr (Error parseErr))]
           | Inr (startTime, endTime) \<Rightarrow>
               insert_promocode env name keyword quantityInt isActive startTime endTime))"

definition AddPromocode :: "add_env \<Rightarrow> response" where
  "AddPromocode env =
     (case add_getClaimsFromContext env of
        Inl err \<Rightarrow> unauthorizedResponse err
      | Inr userID \<Rightarrow>
     (case add_isUserAdmin env of
        Inl err \<Rightarrow> failure ''Failed to verify admin status'' err
      | Inr isAdmin \<Rightarrow>
          if \<not> isAdmin then JSON 403 [(''error'', JStr ''Admin privileges required'')]
          else
     (case add_Unmarshal env of
        Inl err \<Rightarrow>
          JSON 400 [(''error'', JStr ''Invalid request payload''),
                    (''details'', JStr (Error err))]
      | Inr req \<Rightarrow>
          (let name = TrimSpace (req_Name req) in
           if name = [] then JSON 400 [(''error'', JStr ''Name is required'')]
           else
     (case parseFlexibleQuantity (add_Unquote env) (add_ParseFloat env) (req_Quantity req) of
        Inl err \<Rightarrow>
          JSON 400 [(''error'', JStr ''Invalid quantity''), (''details'', JStr (Error err))]
      | Inr quantityValue \<Rightarrow>
          (case check_quantity quantityValue of
             Inl resp \<Rightarrow> resp
           | Inr quantityInt \<Rightarrow> create_promocode env req name quantityInt))))))"

section \<open>Reading a balance\<close>



section \<open>The listing and the admin check\<close>



section \<open>Reference definitions\<close>

text \<open>The active window in the spec's words: now is within [start, end], both ends
  included, and an absent bound does not restrict.\<close>

definition within_window :: "time \<Rightarrow> time option \<Rightarrow> time option \<Rightarrow> bool" where
  "within_window now start end =
     ((case start of None \<Rightarrow> True | Some s \<Rightarrow> s \<le> now) \<and>
      (case end of None \<Rightarrow> True | Some e \<Rightarrow> now \<le> e))"

text \<open>The outcomes of the query on \<open>promocode\<close> after which the lookup goes on to the
  legacy table: no row, or a missing table or column.\<close>

definition falls_through :: "error + promocode_row \<Rightarrow> bool" where
  "falls_through q1 =
     (case q1 of
        Inr row \<Rightarrow> False
      | Inl err \<Rightarrow> err = ErrNoRows \<or> is_pq err [''42P01'', ''42703''])"

text \<open>A time of the request is omitted when the field is absent or blank.\<close>

definition omitted :: "string option \<Rightarrow> bool" where
  "omitted x = (x = None \<or> TrimSpace (the x) = [])"


text \<open>No pair (code, user) occurs twice in either activation table.\<close>

definition unique_pairs :: "tables \<Rightarrow> bool" where
  "unique_pairs t =
     (distinct (map (\<lambda>(p, u, e, q). (p, u)) (promocode_activation t)) \<and>
      distinct (map (\<lambda>(p, u, a). (p, u)) (promocode_activations t)))"




subsection \<open>Stand-ins for the Go library at concrete inputs\<close>

text \<open>
  The theorems below hold for every behaviour of the library functions that the
  handlers take as parameters. Where a closed instance needs one, these are used:
  \<open>ParseFloat_plain\<close> reads an optional sign, decimal digits with an optional
  fraction, and the words NaN, Inf and Infinity, and rejects everything else;
  \<open>Unquote_plain\<close> reads a quoted string without escapes; \<open>Parse_epoch\<close> knows two
  dates in the date-only layout; \<open>Format_epoch\<close> prints the instants the examples
  produce; \<open>sample_bytes\<close> is the random source.
\<close>

definition digit_of :: "char \<Rightarrow> nat option" where
  "digit_of c =
     (let n = (of_char c :: nat) in if 48 \<le> n \<and> n \<le> 57 then Some (n - 48) else None)"

fun decimal :: "string \<Rightarrow> nat \<Rightarrow> nat option" where
  "decimal [] acc = Some acc"
| "decimal (c # cs) acc =
     (case digit_of c of None \<Rightarrow> None | Some d \<Rightarrow> decimal cs (10 * acc + d))"

definition ParseFloat_plain :: "string \<Rightarrow> error + float64" where
  "ParseFloat_plain s =
     (let neg = (take 1 s = ''-'');
          body = (if take 1 s = ''-'' \<or> take 1 s = ''+'' then drop 1 s else s);
          ip = takeWhile (\<lambda>c. c \<noteq> CHR ''.'') body;
          fp = drop 1 (dropWhile (\<lambda>c. c \<noteq> CHR ''.'') body)
      in if EqualFold s ''nan'' then Inr NaN
         else if EqualFold body ''inf'' \<or> EqualFold body ''infinity''
           then Inr (if neg then NegInf else PosInf)
         else if ip = [] \<and> fp = [] then Inl (ErrorString ''invalid syntax'')
         else (case (decimal ip 0, decimal fp 0) of
                 (Some a, Some b) \<Rightarrow>
                   Inr (Finite ((if neg then - 1 else 1) * (of_nat a + of_nat b / 10 ^ length fp)))
               | _ \<Rightarrow> Inl (ErrorString ''invalid syntax'')))"

text \<open>The JSON text of the string "10": the digits between two double quotes.\<close>

definition quoted_10 :: string where
  "quoted_10 = [CHR 0x22, CHR ''1'', CHR ''0'', CHR 0x22]"

definition Unquote_plain :: "string \<Rightarrow> error + string" where
  "Unquote_plain s =
     (if 2 \<le> length s \<and> hd s = CHR 0x22 \<and> last s = CHR 0x22 \<and>
         list_all (\<lambda>c. c \<noteq> CHR 0x22 \<and> c \<noteq> CHR 0x5C \<and> c \<noteq> CHR 0x0A) (butlast (tl s))
      then Inr (butlast (tl s))
      else Inl (ErrorString ''invalid syntax''))"

definition Parse_epoch :: "string \<Rightarrow> string \<Rightarrow> error + time" where
  "Parse_epoch layout v =
     (if layout = ''2006-01-02'' \<and> v = ''1970-01-01'' then Inr 0
      else if layout = ''2006-01-02'' \<and> v = ''1970-01-02'' then Inr (24 * Hour)
      else Inl (ErrorString ''cannot parse''))"

definition Format_epoch :: "time \<Rightarrow> string" where
  "Format_epoch t =
     (if t div 1000000000 = 0 then ''1970-01-01T00:00:00Z''
      else if t div 1000000000 = 2592000 then ''1970-01-31T00:00:00Z''
      else ''later'')"

definition sample_bytes :: "nat \<Rightarrow> 8 word" where
  "sample_bytes i = of_nat (97 * i + 13 * i * i + 200)"

subsection \<open>Concrete stores and requests\<close>

text \<open>An empty store, and the request of user 42 for the code with keyword WELCOME,
  id 1 and quantity 100, found in the current schema with no bounds. The closed
  instances of the theorems are runs of the handlers on these.\<close>

definition empty_tables :: tables where
  "empty_tables = \<lparr>balance = Map.empty, promocode_activation = [], promocode_activations = []\<rparr>"

definition fresh_db :: database where
  "fresh_db = \<lparr>committed = empty_tables, pending = None\<rparr>"

definition welcome_env :: activate_env where
  "welcome_env =
     \<lparr>getClaimsFromContext = Inr 42, BodyParser = Inr '' WELCOME '',
      now_lookup = 5, now_insert = 6, ParseFloat = ParseFloat_plain,
      lookup_promocode = Inr (1, ''Welcome'', VInt64 100, None, None),
      lookup_promocodes = Inl ErrNoRows, lookup_promocodes_alt = Inl ErrNoRows,
      fault_begin = None, fault_check = None, fault_check_legacy = None,
      fault_ensure = None, fault_update = None, fault_insert = None,
      fault_insert_legacy = None, fault_commit = None, fault_readback = None\<rparr>"


definition credited_tables :: tables where
  "credited_tables = \<lparr>balance = [42 \<mapsto> Finite 100], promocode_activation = [],
                        promocode_activations = []\<rparr>"



definition promocode_missing :: error where
  "promocode_missing = PqError ''42P01'' ''relation promocode does not exist''"

definition promocodes_missing :: error where
  "promocodes_missing = PqError ''42P01'' ''relation promocodes does not exist''"


definition column_missing :: error where
  "column_missing = PqError ''42703'' ''column does not exist''"

text \<open>The same request for a keyword that the current schema does not have.\<close>

definition unknown_env :: activate_env where
  "unknown_env = welcome_env\<lparr>lookup_promocode := Inl ErrNoRows\<rparr>"



text \<open>An administrator's request to create the code Welcome with the quantity "10", the
  keyword None and no times, on a store where every insert succeeds; \<open>request_with\<close>
  changes the raw quantity, \<open>late_env\<close> asks for an end time in the past, and
  \<open>colliding_env\<close> is a legacy store without the column \<open>created_at\<close> that already has
  the generated keyword.\<close>

definition welcome_request :: addPromocodeRequest where
  "welcome_request =
     \<lparr>req_Name = ''Welcome'', req_Keyword = ''None'', req_Quantity = quoted_10,
      req_IsActive = None, req_StartTime = None, req_EndTime = None, req_Metadata = None\<rparr>"

definition admin_env :: add_env where
  "admin_env =
     \<lparr>add_getClaimsFromContext = Inr 1, add_isUserAdmin = Inr True,
      add_Unmarshal = Inr welcome_request, add_Unquote = Unquote_plain,
      add_ParseFloat = ParseFloat_plain, add_rand_err = None, add_rand_bytes = sample_bytes,
      add_time_Parse = Parse_epoch, add_Format = Format_epoch, now_resolve = 0, now_active = 1,
      exec_insert_promocode = None, exec_insert_promocodes = None,
      exec_insert_promocodes_retry = None\<rparr>"


definition late_env :: add_env where
  "late_env = admin_env\<lparr>add_Unmarshal := Inr (welcome_request\<lparr>req_EndTime := Some ''1970-01-01''\<rparr>),
                         now_resolve := 5\<rparr>"

definition colliding_env :: add_env where
  "colliding_env = admin_env\<lparr>exec_insert_promocode := Some promocode_missing,
                              exec_insert_promocodes := Some column_missing,
                              exec_insert_promocodes_retry := Some unique_violation\<rparr>"

section \<open>Properties of the lookup\<close>

lemma computePromocodeActive_iff:
  "computePromocodeActive now (Some r) =
     ((case StartTime r of None \<Rightarrow> True | Some s \<Rightarrow> s \<le> now) \<and>
      (case EndTime r of None \<Rightarrow> True | Some e \<Rightarrow> now \<le> e))"
  by (auto simp: computePromocodeActive_def split: option.splits)

lemma find_current:
  "findPromocodeByKeyword now pf (Inr (i, n, qv, st, en)) q2 q3 = Inr r \<Longrightarrow>
     IsActive r = within_window now st en \<and> StartTime r = st \<and> EndTime r = en"
  by (auto simp: findPromocodeByKeyword_def Let_def within_window_def computePromocodeActive_iff
      split: sum.splits)

lemma find_legacy:
  "falls_through q1 \<Longrightarrow> findPromocodeByKeyword now pf q1 (Inr row) q3 = Inr (legacy_record row)"
  by (auto simp: findPromocodeByKeyword_def falls_through_def Let_def split: sum.splits)

lemma find_legacy_alt:
  "falls_through q1 \<Longrightarrow> is_pq e2 [''42703''] \<Longrightarrow>
   findPromocodeByKeyword now pf q1 (Inl e2) (Inr row) = Inr (legacy_record row)"
  by (auto simp: findPromocodeByKeyword_def falls_through_def Let_def split: sum.splits)

text \<open>
  Claim C4, as the code has it. A code resolved from the current schema (table
  \<open>promocode\<close>) is active exactly when now lies within [startTime, endTime], both ends
  included and an absent bound not restricting; \<open>computePromocodeActive\<close> computes that
  for every record. A code resolved from the legacy schema (table \<open>promocodes\<close>, under
  either column naming) has no bounds, and its active flag is the stored column,
  whatever the instant.
\<close>

theorem C4_active_window:
  "computePromocodeActive now (Some r) = within_window now (StartTime r) (EndTime r) \<and>
   (findPromocodeByKeyword now pf (Inr (i, n, qv, st, en)) q2 q3 = Inr r1 \<longrightarrow>
      IsActive r1 = within_window now st en \<and> StartTime r1 = st \<and> EndTime r1 = en) \<and>
   (falls_through q1 \<longrightarrow>
      findPromocodeByKeyword now pf q1 (Inr (i', q, a)) q3 = Inr r2 \<longrightarrow>
      IsActive r2 = a \<and> StartTime r2 = None \<and> EndTime r2 = None) \<and>
   (falls_through q1 \<longrightarrow> is_pq e2 [''42703''] \<longrightarrow>
      findPromocodeByKeyword now pf q1 (Inl e2) (Inr (i', q, a)) = Inr r3 \<longrightarrow>
      IsActive r3 = a \<and> StartTime r3 = None \<and> EndTime r3 = None)"
proof -
  have a: "computePromocodeActive now (Some r) = within_window now (StartTime r) (EndTime r)"
    by (simp add: computePromocodeActive_iff within_window_def)
  have b: "findPromocodeByKeyword now pf (Inr (i, n, qv, st, en)) q2 q3 = Inr r1 \<longrightarrow>
      IsActive r1 = within_window now st en \<and> StartTime r1 = st \<and> EndTime r1 = en"
    using find_current by blast
  have c: "falls_through q1 \<longrightarrow>
      findPromocodeByKeyword now pf q1 (Inr (i', q, a)) q3 = Inr r2 \<longrightarrow>
      IsActive r2 = a \<and> StartTime r2 = None \<and> EndTime r2 = None"
    by (auto simp: find_legacy legacy_record_def)
  have d: "falls_through q1 \<longrightarrow> is_pq e2 [''42703''] \<longrightarrow>
      findPromocodeByKeyword now pf q1 (Inl e2) (Inr (i', q, a)) = Inr r3 \<longrightarrow>
      IsActive r3 = a \<and> StartTime r3 = None \<and> EndTime r3 = None"
    by (auto simp: find_legacy_alt legacy_record_def)
  from a b c d show ?thesis by blast
qed

text \<open>
  Claim C4 as stated fails for the legacy schema: a row of \<open>promocodes\<close> whose
  \<open>is_active\<close> is false resolves to an inactive code with no bounds, although every
  instant lies within an unbounded window.
\<close>

theorem C4_counterexample:
  "findPromocodeByKeyword 0 ParseFloat_plain (Inl ErrNoRows) (Inr (7, Finite 100, False)) (Inl ErrNoRows)
     = Inr \<lparr>ID = 7, Name = [], Quantity = Finite 100, IsActive = False,
            StartTime = None, EndTime = None\<rparr>
   \<and> within_window 0 None None"
  by (simp add: findPromocodeByKeyword_def legacy_record_def within_window_def)

text \<open>An instance of C4: a current-schema code at the last instant of its window, and a
  legacy code found under each column naming.\<close>

theorem C4_active_window_witness:
  "computePromocodeActive 5 (Some \<lparr>ID = 1, Name = ''Welcome'', Quantity = Finite 100,
       IsActive = False, StartTime = Some 5, EndTime = Some 9\<rparr>) \<and>
   findPromocodeByKeyword 9 ParseFloat_plain (Inr (1, ''Welcome'', VInt64 100, Some 5, Some 9))
       (Inl ErrNoRows) (Inl ErrNoRows)
     = Inr \<lparr>ID = 1, Name = ''Welcome'', Quantity = Finite 100, IsActive = True,
            StartTime = Some 5, EndTime = Some 9\<rparr> \<and>
   falls_through (Inl ErrNoRows) \<and>
   findPromocodeByKeyword 9 ParseFloat_plain (Inl ErrNoRows) (Inr (2, Finite 50, True)) (Inl ErrNoRows)
     = Inr \<lparr>ID = 2, Name = [], Quantity = Finite 50, IsActive = True,
            StartTime = None, EndTime = None\<rparr> \<and>
   is_pq (PqError ''42703'' ''column promocode_id does not exist'') [''42703''] \<and>
   findPromocodeByKeyword 9 ParseFloat_plain (Inl ErrNoRows)
       (Inl (PqError ''42703'' ''column promocode_id does not exist'')) (Inr (2, Finite 50, True))
     = Inr \<lparr>ID = 2, Name = [], Quantity = Finite 50, IsActive = True,
            StartTime = None, EndTime = None\<rparr>"
  using C4_active_window [of 5 "\<lparr>ID = 1, Name = ''Welcome'', Quantity = Finite 100,
       IsActive = False, StartTime = Some 5, EndTime = Some 9\<rparr>"
       ParseFloat_plain 1 "''Welcome''" "VInt64 100" "Some 5" "Some 9" "Inl ErrNoRows" "Inl ErrNoRows"
       "\<lparr>ID = 1, Name = ''Welcome'', Quantity = Finite 100, IsActive = True,
            StartTime = Some 5, EndTime = Some 9\<rparr>"
       "Inl ErrNoRows" 2 "Finite 50" True
       "\<lparr>ID = 2, Name = [], Quantity = Finite 50, IsActive = True,
            StartTime = None, EndTime = None\<rparr>"
       "PqError ''42703'' ''column promocode_id does not exist''"
       "\<lparr>ID = 2, Name = [], Quantity = Finite 50, IsActive = True,
            StartTime = None, EndTime = None\<rparr>"]
  by (simp add: findPromocodeByKeyword_def legacy_record_def within_window_def falls_through_def
      is_pq_def computePromocodeActive_def)

section \<open>Properties of the redemption\<close>

lemma trim_welcome: "TrimSpace '' WELCOME '' = ''WELCOME''"
  by (simp add: TrimSpace_def isSpace_def)


lemmas handler_defs = ActivatePromocode_def activate_in_tx_def commit_and_read_def
  check_activation_def findPromocodeByKeyword_def legacy_record_def computePromocodeActive_def
  is_pq_def JSON_def failure_def already_activated_def unauthorizedResponse_def body_field_def


lemma Status_failure [simp]: "Status (failure m e) = 500"
  by (simp add: failure_def JSON_def)

lemma Status_already [simp]: "Status already_activated = 400"
  by (simp add: already_activated_def JSON_def)

lemma Status_JSON [simp]: "Status (JSON st kvs) = st"
  by (simp add: JSON_def)

lemma Status_unauthorized [simp]: "Status (unauthorizedResponse e) = 401"
  by (simp add: unauthorizedResponse_def Let_def)

lemma tx_Exec_pending:
  "tx_Exec fault stmt s = (r, s') \<Longrightarrow> committed s' = committed s \<and> (pending s = None \<longrightarrow> pending s' = None)"
  by (auto simp: tx_Exec_def split: option.splits sum.splits)











lemma ActivatePromocode_started:
  assumes "ActivatePromocode env s = (resp, s')"
  shows "s' = s \<and> Status resp \<noteq> 200 \<or>
         (\<exists>uid record sm. getClaimsFromContext env = Inr uid \<and>
            findPromocodeByKeyword (now_lookup env) (ParseFloat env) (lookup_promocode env)
              (lookup_promocodes env) (lookup_promocodes_alt env) = Inr record \<and>
            activate_in_tx env uid record (s\<lparr>pending := Some (committed s)\<rparr>) = (resp, sm) \<and>
            s' = snd (tx_Rollback sm))"
  using assms
  by (auto simp: ActivatePromocode_def Let_def db_Begin_def
      split: sum.splits if_splits option.splits prod.splits)









lemma find_no_rows:
  assumes "falls_through q1"
      and "q2 = Inl ErrNoRows \<or> (\<exists>e. q2 = Inl e \<and> is_pq e [''42703''] \<and> q3 = Inl ErrNoRows)"
  shows "findPromocodeByKeyword now pf q1 q2 q3 = Inl ErrNoRows"
  using assms
  by (auto simp: findPromocodeByKeyword_def falls_through_def Let_def is_pq_def split: sum.splits)

text \<open>
  Claim C5, as the code has it. When the lookup on the current schema finds no row (or
  finds its table or a column missing) and the lookup on the legacy table
  \<open>promocodes\<close>, under either column naming, finds no row, \<open>findPromocodeByKeyword\<close>
  fails with \<open>sql.ErrNoRows\<close> and the handler answers 404 \<open>Promocode not found\<close> with
  no details and without touching the store.
\<close>

theorem C5_not_found:
  assumes "getClaimsFromContext env = Inr uid"
      and "BodyParser env = Inr promocode"
      and "TrimSpace promocode \<noteq> []"
      and "falls_through (lookup_promocode env)"
      and "lookup_promocodes env = Inl ErrNoRows \<or>
           (\<exists>e. lookup_promocodes env = Inl e \<and> is_pq e [''42703''] \<and>
                lookup_promocodes_alt env = Inl ErrNoRows)"
  shows "findPromocodeByKeyword (now_lookup env) (ParseFloat env) (lookup_promocode env)
           (lookup_promocodes env) (lookup_promocodes_alt env) = Inl ErrNoRows \<and>
         ActivatePromocode env s = (JSON 404 [(''error'', JStr ''Promocode not found'')], s)"
proof -
  have "findPromocodeByKeyword (now_lookup env) (ParseFloat env) (lookup_promocode env)
           (lookup_promocodes env) (lookup_promocodes_alt env) = Inl ErrNoRows"
    using assms(4,5) by (rule find_no_rows)
  with assms(1-3) show ?thesis
    by (simp add: ActivatePromocode_def Let_def)
qed

text \<open>An instance of C5: both tables exist and neither has the keyword; and only the
  legacy table exists, under its second column naming, without the keyword.\<close>

theorem C5_not_found_witness:
  "getClaimsFromContext unknown_env = Inr 42 \<and>
   BodyParser unknown_env = Inr '' WELCOME '' \<and>
   TrimSpace '' WELCOME '' = ''WELCOME'' \<and>
   falls_through (lookup_promocode unknown_env) \<and>
   lookup_promocodes unknown_env = Inl ErrNoRows \<and>
   ActivatePromocode unknown_env fresh_db =
     (JSON 404 [(''error'', JStr ''Promocode not found'')], fresh_db) \<and>
   is_pq column_missing [''42703''] \<and>
   ActivatePromocode (unknown_env\<lparr>lookup_promocode := Inl promocode_missing,
                                   lookup_promocodes := Inl column_missing\<rparr>) fresh_db =
     (JSON 404 [(''error'', JStr ''Promocode not found'')], fresh_db)"
  using C5_not_found [of unknown_env 42 "'' WELCOME ''" fresh_db]
    C5_not_found [of "unknown_env\<lparr>lookup_promocode := Inl promocode_missing,
                                   lookup_promocodes := Inl column_missing\<rparr>"
      42 "'' WELCOME ''" fresh_db] trim_welcome
  by (simp add: unknown_env_def welcome_env_def falls_through_def is_pq_def promocode_missing_def
      column_missing_def)

text \<open>
  Claim C5 as stated fails when the legacy table does not exist: the current schema has
  no row for the keyword, the query on \<open>promocodes\<close> fails with SQLSTATE 42P01, and
  the absence is answered with 500 \<open>Failed to fetch promocode\<close> and details.
\<close>

theorem C5_counterexample:
  "falls_through (Inl ErrNoRows) \<and>
   findPromocodeByKeyword 5 ParseFloat_plain (Inl ErrNoRows) (Inl promocodes_missing) (Inl ErrNoRows) =
     Inl (ErrorString ''promocodes table not found'') \<and>
   ActivatePromocode (unknown_env\<lparr>lookup_promocodes := Inl promocodes_missing\<rparr>) fresh_db =
     (JSON 500 [(''error'', JStr ''Failed to fetch promocode''),
                (''details'', JStr ''promocodes table not found'')], fresh_db)"
  by (simp add: unknown_env_def welcome_env_def promocodes_missing_def falls_through_def
      trim_welcome handler_defs)

text \<open>
  Claim C10. \<open>ensureBalanceRecord\<close> with a \<open>nil\<close> transaction returns an error. With
  an open transaction and a statement that runs, it succeeds: a balance row that exists
  is left with its quantity, and an absent row is created with quantity zero.
\<close>

theorem C10_ensureBalanceRecord:
  "ensureBalanceRecord fault TxNil uid s =
     (Some (ErrorString ''transaction is required to ensure balance record''), s) \<and>
   (pending s = Some t \<and> balance t uid = Some q \<longrightarrow>
      ensureBalanceRecord None Tx uid s = (None, s)) \<and>
   (pending s = Some t \<and> balance t uid = None \<longrightarrow>
      ensureBalanceRecord None Tx uid s =
        (None, s\<lparr>pending := Some (t\<lparr>balance := (balance t)(uid \<mapsto> Finite 0)\<rparr>)\<rparr>))"
  by (cases s) (simp add: ensureBalanceRecord_def tx_Exec_def insert_balance_do_nothing_def)

text \<open>An instance of C10: user 42 has a balance of 100, user 43 has no row.\<close>

theorem C10_ensureBalanceRecord_witness:
  "ensureBalanceRecord None TxNil 42 fresh_db =
     (Some (ErrorString ''transaction is required to ensure balance record''), fresh_db) \<and>
   pending (fresh_db\<lparr>pending := Some credited_tables\<rparr>) = Some credited_tables \<and>
   balance credited_tables 42 = Some (Finite 100) \<and>
   ensureBalanceRecord None Tx 42 (fresh_db\<lparr>pending := Some credited_tables\<rparr>) =
     (None, fresh_db\<lparr>pending := Some credited_tables\<rparr>) \<and>
   balance credited_tables 43 = None \<and>
   ensureBalanceRecord None Tx 43 (fresh_db\<lparr>pending := Some credited_tables\<rparr>) =
     (None, fresh_db\<lparr>pending := Some (credited_tables\<lparr>balance := [42 \<mapsto> Finite 100, 43 \<mapsto> Finite 0]\<rparr>)\<rparr>)"
  using C10_ensureBalanceRecord [of None 42 fresh_db credited_tables "Finite 100"]
    C10_ensureBalanceRecord [of None 42 "fresh_db\<lparr>pending := Some credited_tables\<rparr>"
      credited_tables "Finite 100"]
    C10_ensureBalanceRecord [of None 43 "fresh_db\<lparr>pending := Some credited_tables\<rparr>"
      credited_tables "Finite 100"]
  by (simp add: fresh_db_def credited_tables_def)


text \<open>What does hold of the inserts: a uniqueness violation on the first insert is
  answered with \<open>Promocode already activated by this user\<close>, and no run of the handler
  leaves a pair twice in an activation table.\<close>

lemma first_insert_conflict:
  assumes "check_activation env uid rcd s = None"
      and "ensureBalanceRecord (fault_ensure env) Tx uid s = (None, s1)"
      and "tx_Exec (fault_update env) (update_balance_add (Quantity rcd) uid) s1 = (None, s2)"
      and "tx_Exec (fault_insert env)
             (insert_activation (ID rcd) uid (now_insert env) (int64_of_float64 (Round (Quantity rcd))))
             s2 = (Some err, s3)"
      and "is_pq err [''23505'']"
  shows "activate_in_tx env uid rcd s = (already_activated, s3)"
  using assms by (auto simp: activate_in_tx_def is_pq_def split: error.splits)

lemma tx_Exec_unique:
  assumes "tx_Exec fault stmt s = (r, s')"
      and "\<And>t t'. stmt t = Inr t' \<Longrightarrow> unique_pairs t \<Longrightarrow> unique_pairs t'"
      and "\<forall>t. pending s = Some t \<longrightarrow> unique_pairs t"
  shows "\<forall>t. pending s' = Some t \<longrightarrow> unique_pairs t"
  using assms by (auto simp: tx_Exec_def split: option.splits sum.splits)

lemma stmt_unique:
  "insert_balance_do_nothing uid t = Inr t' \<Longrightarrow> unique_pairs t \<Longrightarrow> unique_pairs t'"
  "update_balance_add q uid t = Inr t' \<Longrightarrow> unique_pairs t \<Longrightarrow> unique_pairs t'"
  "insert_activation pid uid now n t = Inr t' \<Longrightarrow> unique_pairs t \<Longrightarrow> unique_pairs t'"
  "insert_activations pid uid now t = Inr t' \<Longrightarrow> unique_pairs t \<Longrightarrow> unique_pairs t'"
  by (auto simp: insert_balance_do_nothing_def update_balance_add_def insert_activation_def
      insert_activations_def unique_pairs_def split: option.splits if_splits)

lemma commit_and_read_unique:
  "commit_and_read env uid s = (r, s') \<Longrightarrow> unique_pairs (committed s) \<Longrightarrow>
   \<forall>t. pending s = Some t \<longrightarrow> unique_pairs t \<Longrightarrow> unique_pairs (committed s')"
  by (auto simp: commit_and_read_def tx_Commit_def split: option.splits sum.splits)

lemma activate_in_tx_unique:
  assumes run: "activate_in_tx env uid rcd s = (r, s')"
      and c: "unique_pairs (committed s)"
      and p: "\<forall>t. pending s = Some t \<longrightarrow> unique_pairs t"
  shows "unique_pairs (committed s')"
proof (cases "check_activation env uid rcd s")
  case (Some resp)
  with run c show ?thesis by (simp add: activate_in_tx_def)
next
  case None
  obtain e1 s1 where e: "ensureBalanceRecord (fault_ensure env) Tx uid s = (e1, s1)"
    by (cases "ensureBalanceRecord (fault_ensure env) Tx uid s")
  then have x1: "tx_Exec (fault_ensure env) (insert_balance_do_nothing uid) s = (e1, s1)"
    by (simp add: ensureBalanceRecord_def)
  have c1: "committed s1 = committed s"
    using tx_Exec_pending [OF x1] by simp
  have p1: "\<forall>t. pending s1 = Some t \<longrightarrow> unique_pairs t"
    using tx_Exec_unique [OF x1 stmt_unique(1) p] .
  obtain e2 s2 where u: "tx_Exec (fault_update env) (update_balance_add (Quantity rcd) uid) s1 = (e2, s2)"
    by (cases "tx_Exec (fault_update env) (update_balance_add (Quantity rcd) uid) s1")
  have c2: "committed s2 = committed s"
    using tx_Exec_pending [OF u] c1 by simp
  have p2: "\<forall>t. pending s2 = Some t \<longrightarrow> unique_pairs t"
    using tx_Exec_unique [OF u stmt_unique(2) p1] .
  obtain e3 s3 where i: "tx_Exec (fault_insert env)
             (insert_activation (ID rcd) uid (now_insert env) (int64_of_float64 (Round (Quantity rcd))))
             s2 = (e3, s3)"
    by (cases "tx_Exec (fault_insert env)
             (insert_activation (ID rcd) uid (now_insert env) (int64_of_float64 (Round (Quantity rcd))))
             s2")
  have c3: "committed s3 = committed s"
    using tx_Exec_pending [OF i] c2 by simp
  have p3: "\<forall>t. pending s3 = Some t \<longrightarrow> unique_pairs t"
    using tx_Exec_unique [OF i stmt_unique(3) p2] .
  obtain e4 s4 where l: "tx_Exec (fault_insert_legacy env)
             (insert_activations (ID rcd) uid (now_insert env)) s3 = (e4, s4)"
    by (cases "tx_Exec (fault_insert_legacy env)
             (insert_activations (ID rcd) uid (now_insert env)) s3")
  have c4: "committed s4 = committed s"
    using tx_Exec_pending [OF l] c3 by simp
  have p4: "\<forall>t. pending s4 = Some t \<longrightarrow> unique_pairs t"
    using tx_Exec_unique [OF l stmt_unique(4) p3] .
  from run None e u i l c c1 c2 c3 c4 show ?thesis
    using commit_and_read_unique [of env uid s3 r s'] commit_and_read_unique [of env uid s4 r s']
      p3 p4
    by (auto simp: activate_in_tx_def split: option.splits if_splits)
qed

lemma ActivatePromocode_unique:
  assumes "ActivatePromocode env s = (r, s')" and "unique_pairs (committed s)"
  shows "unique_pairs (committed s')"
proof -
  from ActivatePromocode_started [OF assms(1)] show ?thesis
  proof
    assume "s' = s \<and> Status r \<noteq> 200"
    with assms(2) show ?thesis by simp
  next
    assume "\<exists>uid rcd sm. getClaimsFromContext env = Inr uid \<and>
            findPromocodeByKeyword (now_lookup env) (ParseFloat env) (lookup_promocode env)
              (lookup_promocodes env) (lookup_promocodes_alt env) = Inr rcd \<and>
            activate_in_tx env uid rcd (s\<lparr>pending := Some (committed s)\<rparr>) = (r, sm) \<and>
            s' = snd (tx_Rollback sm)"
    then obtain uid rcd sm where
      tx: "activate_in_tx env uid rcd (s\<lparr>pending := Some (committed s)\<rparr>) = (r, sm)" and
      fin: "s' = snd (tx_Rollback sm)"
      by blast
    from activate_in_tx_unique [OF tx] assms(2) have "unique_pairs (committed sm)"
      by simp
    with fin show ?thesis
      by (auto simp: tx_Rollback_def split: option.splits)
  qed
qed

section \<open>Properties of creating a code\<close>

lemma generated_keyword:
  "generatePromocodeKeyword None rb 8 = Inr k \<Longrightarrow> length k = 8 \<and> set k \<subseteq> set charset"
proof -
  assume "generatePromocodeKeyword None rb 8 = Inr k"
  then have k: "k = map (\<lambda>i. charset ! (unat (rb i) mod length charset)) [0..<8]"
    by (simp add: generatePromocodeKeyword_def)
  have "0 < length charset"
    by (simp add: charset_def)
  then have "charset ! (n mod length charset) \<in> set charset" for n
    by (intro nth_mem) simp
  with k show ?thesis
    by auto
qed







lemma check_quantity_integral:
  "0 < x \<Longrightarrow> \<bar>x - of_int (round_half_away x)\<bar> \<le> float64_1e_9 \<Longrightarrow>
   check_quantity (Finite x) = Inr (int64_of_float64 (Finite (of_int (round_half_away x))))"
  by (simp add: check_quantity_def IsNaN_def IsInf_def f64_sub_def)








lemma create_promocode_times_error:
  assumes "add_rand_err env = None"
      and "resolvePromocodeTimes (add_time_Parse env) (now_resolve env)
             (req_StartTime req) (req_EndTime req) = Inl err"
  shows "create_promocode env req name q =
           JSON 400 [(''error'', JStr ''Invalid start or end time''), (''details'', JStr (Error err))]"
  using assms by (simp add: create_promocode_def Let_def generatePromocodeKeyword_def)

text \<open>
  Claim C8. An omitted start time resolves to the current instant; an omitted end time
  resolves to the resolved start plus 30 days; a given end time that is not after the
  resolved start makes \<open>resolvePromocodeTimes\<close> fail, and the handler answers that
  failure with 400 \<open>Invalid start or end time\<close>.
\<close>

theorem C8_time_resolution:
  "(omitted start \<and> omitted end \<longrightarrow>
      resolvePromocodeTimes tp now start end = Inr (Some now, Some (now + 30 * 24 * Hour))) \<and>
   (\<not> omitted start \<and> parseTimeInput tp (the start) = Inr st \<and> omitted end \<longrightarrow>
      resolvePromocodeTimes tp now start end = Inr (Some st, Some (st + 30 * 24 * Hour))) \<and>
   (omitted start \<and> \<not> omitted end \<and> parseTimeInput tp (the end) = Inr en \<longrightarrow>
      resolvePromocodeTimes tp now start end =
        (if en \<le> now then Inl (ErrorString ''end time must be after start time'')
         else Inr (Some now, Some en))) \<and>
   (\<not> omitted start \<and> parseTimeInput tp (the start) = Inr st \<and>
    \<not> omitted end \<and> parseTimeInput tp (the end) = Inr en \<longrightarrow>
      resolvePromocodeTimes tp now start end =
        (if en \<le> st then Inl (ErrorString ''end time must be after start time'')
         else Inr (Some st, Some en))) \<and>
   (add_rand_err env = None \<and>
    resolvePromocodeTimes (add_time_Parse env) (now_resolve env) (req_StartTime req) (req_EndTime req) =
      Inl err \<longrightarrow>
      create_promocode env req name q =
        JSON 400 [(''error'', JStr ''Invalid start or end time''), (''details'', JStr (Error err))])"
proof -
  have a: "resolvePromocodeTimes tp now start end = Inr (Some now, Some (now + 30 * 24 * Hour))"
    if "omitted start" "omitted end"
    using that by (auto simp: resolvePromocodeTimes_def omitted_def Hour_def)
  have b: "resolvePromocodeTimes tp now start end = Inr (Some st, Some (st + 30 * 24 * Hour))"
    if "\<not> omitted start" "parseTimeInput tp (the start) = Inr st" "omitted end"
    using that by (auto simp: resolvePromocodeTimes_def omitted_def Hour_def)
  have c: "resolvePromocodeTimes tp now start end =
        (if en \<le> now then Inl (ErrorString ''end time must be after start time'')
         else Inr (Some now, Some en))"
    if "omitted start" "\<not> omitted end" "parseTimeInput tp (the end) = Inr en"
    using that by (auto simp: resolvePromocodeTimes_def omitted_def)
  have d: "resolvePromocodeTimes tp now start end =
        (if en \<le> st then Inl (ErrorString ''end time must be after start time'')
         else Inr (Some st, Some en))"
    if "\<not> omitted start" "parseTimeInput tp (the start) = Inr st"
       "\<not> omitted end" "parseTimeInput tp (the end) = Inr en"
    using that by (auto simp: resolvePromocodeTimes_def omitted_def)
  from a b c d create_promocode_times_error show ?thesis
    by blast
qed

lemma parse_epoch_samples:
  "parseTimeInput Parse_epoch ''1970-01-01'' = Inr 0"
  "parseTimeInput Parse_epoch ''1970-01-02'' = Inr 86400000000000"
  "TrimSpace ''1970-01-01'' = ''1970-01-01''"
  "TrimSpace ''1970-01-02'' = ''1970-01-02''"
  "TrimSpace ''  '' = []"
  by code_simp+

text \<open>An instance of C8 at the instant 5 ns, with the dates 1970-01-01 and 1970-01-02.\<close>

theorem C8_time_resolution_witness:
  "omitted None \<and> omitted (Some ''  '') \<and> \<not> omitted (Some ''1970-01-01'') \<and>
   resolvePromocodeTimes Parse_epoch 5 None (Some ''  '') = Inr (Some 5, Some 2592000000000005) \<and>
   parseTimeInput Parse_epoch ''1970-01-01'' = Inr 0 \<and>
   parseTimeInput Parse_epoch ''1970-01-02'' = Inr 86400000000000 \<and>
   resolvePromocodeTimes Parse_epoch 5 (Some ''1970-01-01'') None = Inr (Some 0, Some 2592000000000000) \<and>
   resolvePromocodeTimes Parse_epoch 5 None (Some ''1970-01-01'') =
     Inl (ErrorString ''end time must be after start time'') \<and>
   resolvePromocodeTimes Parse_epoch 5 (Some ''1970-01-01'') (Some ''1970-01-01'') =
     Inl (ErrorString ''end time must be after start time'') \<and>
   resolvePromocodeTimes Parse_epoch 5 (Some ''1970-01-01'') (Some ''1970-01-02'') =
     Inr (Some 0, Some 86400000000000) \<and>
   add_rand_err late_env = None \<and>
   create_promocode late_env (welcome_request\<lparr>req_EndTime := Some ''1970-01-01''\<rparr>) ''Welcome'' 10 =
     JSON 400 [(''error'', JStr ''Invalid start or end time''),
               (''details'', JStr ''end time must be after start time'')]"
  using C8_time_resolution [of None "Some ''  ''" Parse_epoch 5 0 0 late_env
      "welcome_request\<lparr>req_EndTime := Some ''1970-01-01''\<rparr>"
      "ErrorString ''end time must be after start time''" "''Welcome''" 10]
    C8_time_resolution [of "Some ''1970-01-01''" None Parse_epoch 5 0 0]
    C8_time_resolution [of None "Some ''1970-01-01''" Parse_epoch 5 0 0]
    C8_time_resolution [of "Some ''1970-01-01''" "Some ''1970-01-01''" Parse_epoch 5 0 0]
    C8_time_resolution [of "Some ''1970-01-01''" "Some ''1970-01-02''" Parse_epoch 5 0 86400000000000]
  by (simp add: omitted_def parse_epoch_samples Hour_def late_env_def admin_env_def
      welcome_request_def)

text \<open>
  Claim C7 at an input where the code departs from it. The request has the keyword
  None, so the keyword USKY20KU is generated. The table \<open>promocode\<close> is missing
  (42P01), the insert into \<open>promocodes\<close> fails for the missing column \<open>created_at\<close>
  (42703), and the retried insert collides with an existing keyword (23505): the
  handler answers 500 \<open>Failed to create promocode\<close>. The same collision on either of
  the first two inserts is answered with 409 \<open>Promocode keyword already exists\<close>, and
  without a collision the retry creates the code.
\<close>

theorem C7_retry_insert_conflict:
  "AddPromocode colliding_env =
     JSON 500 [(''error'', JStr ''Failed to create promocode''),
               (''details'', JStr ''pq: duplicate key value violates unique constraint'')] \<and>
   AddPromocode (admin_env\<lparr>exec_insert_promocode := Some unique_violation\<rparr>) =
     JSON 409 [(''error'', JStr ''Promocode keyword already exists'')] \<and>
   AddPromocode (admin_env\<lparr>exec_insert_promocode := Some promocode_missing,
                           exec_insert_promocodes := Some unique_violation\<rparr>) =
     JSON 409 [(''error'', JStr ''Promocode keyword already exists'')] \<and>
   AddPromocode (admin_env\<lparr>exec_insert_promocode := Some promocode_missing,
                           exec_insert_promocodes := Some column_missing\<rparr>) =
     JSON 200 [(''keyword'', JStr ''USKY20KU''), (''active'', JBool True), (''quantity'', JInt 10),
               (''name'', JStr ''Welcome''), (''start_time'', JStr ''1970-01-01T00:00:00Z''),
               (''end_time'', JStr ''1970-01-31T00:00:00Z'')]"
  by code_simp

text \<open>What does hold of the keyword: a request whose keyword is empty or None gets a
  generated keyword of 8 characters of the charset, and a uniqueness violation on the
  insert into \<open>promocode\<close> or on the first insert into \<open>promocodes\<close> is answered with
  409.\<close>

lemma create_promocode_generated:
  assumes "TrimSpace (req_Keyword req) = [] \<or> EqualFold (TrimSpace (req_Keyword req)) ''none''"
      and "add_rand_err env = None"
      and "resolvePromocodeTimes (add_time_Parse env) (now_resolve env)
             (req_StartTime req) (req_EndTime req) = Inr (st, en)"
  shows "\<exists>k. length k = 8 \<and> set k \<subseteq> set charset \<and>
           create_promocode env req name q =
             insert_promocode env name k q (case req_IsActive req of None \<Rightarrow> True | Some b \<Rightarrow> b) st en"
proof -
  obtain k where k: "generatePromocodeKeyword None (add_rand_bytes env) 8 = Inr k"
    by (simp add: generatePromocodeKeyword_def)
  from generated_keyword [OF k] k assms show ?thesis
    by (auto simp: create_promocode_def Let_def)
qed

lemma insert_conflict_reported:
  "exec_insert_promocode env = Some err \<Longrightarrow> is_pq err [''23505''] \<Longrightarrow>
   insert_promocode env name k q a (Some st) (Some en) = keyword_exists"
  "exec_insert_promocodes env = Some err \<Longrightarrow> is_pq err [''23505''] \<Longrightarrow>
   insert_legacy env name k q a st' en' = keyword_exists"
  by (simp_all add: insert_promocode_def insert_legacy_def)

section \<open>Error responses\<close>


























end
